theory Spec2Isabelle
  imports Complex_Main "HOL-Library.Log_Nat"
begin

section \<open>Pole and alert state of the map control panel\<close>

text \<open>
  A shallow embedding of the pole registry, the alert log and the control handlers of
  \<^verbatim>\<open>src/components/MapControlPanel.tsx\<close>. The component keeps two pieces of React
  state, \<^verbatim>\<open>poles\<close> and \<^verbatim>\<open>alerts\<close>; every handler replaces them through
  \<^verbatim>\<open>setPoles\<close> and \<^verbatim>\<open>setAlerts\<close> and emits a toast. A handler is
  modelled as a function from the state before the event to the state after it.

  Conventions:
  \<^item> A JavaScript number is a binary64 value, modelled by the \<^typ>\<open>real\<close> it denotes.
    Sums and products are rounded to the nearest binary64 value, ties to even (see
    \<open>round64\<close> below). A decimal literal of the source that is not itself a binary64
    value (the latitudes and longitudes) stands for the real it writes; no handler
    computes with those.
  \<^item> An optional field \<^verbatim>\<open>f?: T\<close> is a \<^typ>\<open>'a option\<close>; \<^verbatim>\<open>undefined\<close> is
    \<^const>\<open>None\<close>.
  \<^item> Both interfaces have fields \<^verbatim>\<open>id\<close> and \<^verbatim>\<open>severity\<close>, and \<^verbatim>\<open>id\<close> is a
    constant of HOL, so the fields of \<^verbatim>\<open>PoleData\<close> carry the prefix \<open>pole_\<close>, those of
    \<^verbatim>\<open>Alert\<close> the prefix \<open>alert_\<close> and those of the issue form the prefix \<open>issue_\<close>.
\<close>

subsection \<open>Data model\<close>

datatype poleStatus = Healthy | Faulty | Isolated | Maintenance

datatype severityLevel = Low | Medium | High

datatype creator = System | Manual

record PoleData =
  pole_id :: string
  pole_lat :: real
  pole_lng :: real
  pole_status :: poleStatus
  pole_voltage :: real
  pole_current :: real
  pole_location :: string
  pole_lastUpdated :: string
  pole_faultType :: "string option"
  pole_severity :: "severityLevel option"
  pole_isolatedBy :: "string option"
  pole_isolatedAt :: "string option"

record Alert =
  alert_id :: string
  alert_poleId :: string
  alert_message :: string
  alert_timestamp :: string
  alert_severity :: severityLevel
  alert_isExpanded :: "bool option"
  alert_createdBy :: "creator option"

text \<open>
  The object that \<^verbatim>\<open>AddIssueModal.handleSubmit\<close> passes to \<^verbatim>\<open>onAddIssue\<close>:
  \<^verbatim>\<open>{ faultType, severity, description }\<close>.
\<close>

record issueData =
  issue_faultType :: string
  issue_severity :: severityLevel
  issue_description :: string

text \<open>The kinds of toast of the \<^verbatim>\<open>sonner\<close> library that the file uses.\<close>

datatype toastKind = Success | Error | Info | Loading

type_synonym toast = "toastKind \<times> string"

text \<open>
  The state of the component that the handlers read and write: the two \<^verbatim>\<open>useState\<close>
  cells and the toasts emitted so far, oldest first.
\<close>

record panel =
  poles :: "PoleData list"
  alerts :: "Alert list"
  toasts :: "toast list"

text \<open>
  What a handler reads from the outside world. \<open>mathRandom e n\<close> is the value of the \<open>n\<close>-th
  call of \<^verbatim>\<open>Math.random()\<close> made while the handler's updater runs (counted from 0),
  which in JavaScript is a binary64 value that is at least 0 and less than 1;
  \<open>nowIso e\<close> is \<^verbatim>\<open>new Date().toISOString()\<close> and \<open>nowMs e\<close> is \<^verbatim>\<open>Date.now()\<close>.
  One handler call is taken to happen at one instant, so all its clock reads agree.
\<close>

record env =
  mathRandom :: "nat \<Rightarrow> real"
  nowIso :: string
  nowMs :: nat

subsection \<open>Mock data\<close>

definition mockPoles :: "PoleData list" where
  "mockPoles =
    [ \<lparr> pole_id = ''P001'', pole_lat = 10.8505, pole_lng = 76.2711, pole_status = Faulty,
        pole_voltage = 210, pole_current = 15, pole_location = ''Kochi Central'',
        pole_lastUpdated = ''2024-01-15T10:30:00Z'', pole_faultType = Some ''Voltage Drop'',
        pole_severity = Some High, pole_isolatedBy = None, pole_isolatedAt = None \<rparr>,
      \<lparr> pole_id = ''P002'', pole_lat = 11.2588, pole_lng = 75.7804, pole_status = Healthy,
        pole_voltage = 230, pole_current = 18, pole_location = ''Kozhikode North'',
        pole_lastUpdated = ''2024-01-15T10:29:00Z'', pole_faultType = None,
        pole_severity = None, pole_isolatedBy = None, pole_isolatedAt = None \<rparr>,
      \<lparr> pole_id = ''P003'', pole_lat = 8.5241, pole_lng = 76.9366, pole_status = Isolated,
        pole_voltage = 0, pole_current = 0, pole_location = ''Thiruvananthapuram East'',
        pole_lastUpdated = ''2024-01-15T10:25:00Z'', pole_faultType = Some ''Current Spike'',
        pole_severity = Some Medium, pole_isolatedBy = Some ''Admin'',
        pole_isolatedAt = Some ''2024-01-15T09:45:00Z'' \<rparr>,
      \<lparr> pole_id = ''P004'', pole_lat = 9.9312, pole_lng = 76.2673, pole_status = Healthy,
        pole_voltage = 235, pole_current = 14, pole_location = ''Ernakulam'',
        pole_lastUpdated = ''2024-01-15T10:28:00Z'', pole_faultType = None,
        pole_severity = None, pole_isolatedBy = None, pole_isolatedAt = None \<rparr>,
      \<lparr> pole_id = ''P005'', pole_lat = 10.5276, pole_lng = 76.2144, pole_status = Maintenance,
        pole_voltage = 220, pole_current = 10, pole_location = ''Thrissur'',
        pole_lastUpdated = ''2024-01-15T10:27:00Z'',
        pole_faultType = Some ''Scheduled Maintenance'',
        pole_severity = None, pole_isolatedBy = None, pole_isolatedAt = None \<rparr> ]"

definition mockAlerts :: "Alert list" where
  "mockAlerts =
    [ \<lparr> alert_id = ''A001'', alert_poleId = ''P001'',
        alert_message = ''Pole #P001 - Voltage Drop Detected'',
        alert_timestamp = ''2024-01-15T10:30:00Z'', alert_severity = High,
        alert_isExpanded = None, alert_createdBy = None \<rparr>,
      \<lparr> alert_id = ''A002'', alert_poleId = ''P003'',
        alert_message = ''Pole #P003 - Current Spike Warning'',
        alert_timestamp = ''2024-01-15T10:25:00Z'', alert_severity = Medium,
        alert_isExpanded = None, alert_createdBy = None \<rparr> ]"

text \<open>
  The state after mounting: \<^verbatim>\<open>useState(mockPoles)\<close>, \<^verbatim>\<open>useState(mockAlerts)\<close>, no
  toast yet.
\<close>

definition initialState :: panel where
  "initialState = \<lparr> poles = mockPoles, alerts = mockAlerts, toasts = [] \<rparr>"

subsection \<open>Binary64 arithmetic\<close>

text \<open>
  \<open>rne y\<close> is the integer nearest to \<open>y\<close>, the even one when \<open>y\<close> lies halfway between
  two integers.
\<close>

definition rne :: "real \<Rightarrow> int" where
  "rne y =
     (let f = \<lfloor>y\<rfloor>; d = y - of_int f
      in if d < 1 / 2 then f
         else if 1 / 2 < d then f + 1
         else if even f then f else f + 1)"

text \<open>
  \<open>expo x\<close> is the binary exponent of \<open>x\<close>, the \<open>e\<close> with \<open>2 powi e \<le> \<bar>x\<bar> < 2 powi (e + 1)\<close>,
  and \<open>- 1022\<close> for the subnormal numbers and zero. It is computed from the number of
  bits of \<open>\<bar>x\<bar>\<close> counted in units of \<open>2 powi (- 1074)\<close>, the smallest positive binary64
  value. \<open>ulp x\<close> is the distance between neighbouring binary64 values at \<open>x\<close>: the
  significand has 52 fraction bits.
\<close>

definition expo :: "real \<Rightarrow> int" where
  "expo x = max (- 1022) (bitlen \<lfloor>\<bar>x\<bar> * 2 ^ 1074\<rfloor> - 1075)"

definition ulp :: "real \<Rightarrow> real" where
  "ulp x = 2 powi (expo x - 52)"

text \<open>
  Rounding a real to binary64, to nearest and ties to even, and the \<^verbatim>\<open>+\<close> and
  \<^verbatim>\<open>*\<close> of JavaScript on finite numbers: the exact result, rounded. A result of
  magnitude \<open>2 ^ 1024\<close> or more, which binary64 replaces by an infinity, has no
  counterpart in \<^typ>\<open>real\<close>; the handlers add and multiply a draw of
  \<^verbatim>\<open>Math.random()\<close> and constants up to 230, so their results stay below 241.
\<close>

definition round64 :: "real \<Rightarrow> real" where
  "round64 x = of_int (rne (x / ulp x)) * ulp x"

definition fadd :: "real \<Rightarrow> real \<Rightarrow> real" where
  "fadd x y = round64 (x + y)"

definition fmul :: "real \<Rightarrow> real \<Rightarrow> real" where
  "fmul x y = round64 (x * y)"

subsection \<open>Handlers\<close>

text \<open>
  All four pole handlers have the shape
  \<^verbatim>\<open>setPoles(prev => prev.map(pole => pole.id === poleId ? { ...pole, ... } : pole))\<close>.
  \<open>updatePoles upd k poleId prev\<close> is that \<^verbatim>\<open>map\<close>: the callback runs on the poles from
  left to right, \<open>upd\<close> builds the object of the first branch, and \<open>k\<close> counts how often
  the first branch has been taken before, which fixes the calls of \<^verbatim>\<open>Math.random()\<close>
  that the branch makes.
\<close>

fun updatePoles ::
  "(nat \<Rightarrow> PoleData \<Rightarrow> PoleData) \<Rightarrow> nat \<Rightarrow> string \<Rightarrow> PoleData list \<Rightarrow> PoleData list" where
  "updatePoles upd k poleId [] = []"
| "updatePoles upd k poleId (pole # rest) =
     (if pole_id pole = poleId
      then upd k pole # updatePoles upd (Suc k) poleId rest
      else pole # updatePoles upd k poleId rest)"

text \<open>
  The rendering of a non-negative integer by a template literal, for
  \<^verbatim>\<open>`A${Date.now()}`\<close>.
\<close>

fun showNat :: "nat \<Rightarrow> string" where
  "showNat n =
     (if n < 10 then [''0123456789'' ! n]
      else showNat (n div 10) @ [''0123456789'' ! (n mod 10)])"

declare showNat.simps [simp del]

definition handleAddIssue :: "env \<Rightarrow> string \<Rightarrow> issueData \<Rightarrow> panel \<Rightarrow> panel" where
  "handleAddIssue e poleId d s =
     (let newAlert =
            \<lparr> alert_id = ''A'' @ showNat (nowMs e),
              alert_poleId = poleId,
              alert_message = ''Pole #'' @ poleId @ '' - '' @ issue_faultType d @ '' (Manual)'',
              alert_timestamp = nowIso e,
              alert_severity = issue_severity d,
              alert_isExpanded = None,
              alert_createdBy = Some Manual \<rparr>
      in s \<lparr> poles :=
               updatePoles
                 (\<lambda>k pole. pole \<lparr> pole_status := Faulty,
                                 pole_faultType := Some (issue_faultType d),
                                 pole_severity := Some (issue_severity d),
                                 pole_lastUpdated := nowIso e \<rparr>)
                 0 poleId (poles s),
             alerts := newAlert # alerts s,
             toasts := toasts s @ [(Success, ''Issue added to pole '' @ poleId)] \<rparr>)"

definition handleFixIssue :: "env \<Rightarrow> string \<Rightarrow> panel \<Rightarrow> panel" where
  "handleFixIssue e poleId s =
     s \<lparr> poles :=
           updatePoles
             (\<lambda>k pole. pole \<lparr> pole_status := Healthy,
                             pole_faultType := None,
                             pole_severity := None,
                             pole_lastUpdated := nowIso e,
                             pole_voltage := fadd 230 (fmul (mathRandom e (2 * k)) 10),
                             pole_current := fadd 15 (fmul (mathRandom e (2 * k + 1)) 5) \<rparr>)
             0 poleId (poles s),
         alerts := filter (\<lambda>alert. alert_poleId alert \<noteq> poleId) (alerts s),
         toasts := toasts s @ [(Success, ''Issue fixed for pole '' @ poleId)] \<rparr>"

definition handleIsolatePole :: "env \<Rightarrow> string \<Rightarrow> panel \<Rightarrow> panel" where
  "handleIsolatePole e poleId s =
     s \<lparr> poles :=
           updatePoles
             (\<lambda>k pole. pole \<lparr> pole_status := Isolated,
                             pole_voltage := 0,
                             pole_current := 0,
                             pole_isolatedBy := Some ''Manual Control'',
                             pole_isolatedAt := Some (nowIso e),
                             pole_lastUpdated := nowIso e \<rparr>)
             0 poleId (poles s),
         toasts := toasts s @ [(Success, ''Pole '' @ poleId @ '' isolated'')] \<rparr>"

definition handleRestorePole :: "env \<Rightarrow> string \<Rightarrow> panel \<Rightarrow> panel" where
  "handleRestorePole e poleId s =
     s \<lparr> poles :=
           updatePoles
             (\<lambda>k pole. pole \<lparr> pole_status := Healthy,
                             pole_voltage := fadd 230 (fmul (mathRandom e (2 * k)) 10),
                             pole_current := fadd 15 (fmul (mathRandom e (2 * k + 1)) 5),
                             pole_isolatedBy := None,
                             pole_isolatedAt := None,
                             pole_faultType := None,
                             pole_severity := None,
                             pole_lastUpdated := nowIso e \<rparr>)
             0 poleId (poles s),
         alerts := filter (\<lambda>alert. alert_poleId alert \<noteq> poleId) (alerts s),
         toasts := toasts s @ [(Success, ''Pole '' @ poleId @ '' restored'')] \<rparr>"

definition handleDeleteAlert :: "string \<Rightarrow> panel \<Rightarrow> panel" where
  "handleDeleteAlert alertId s =
     s \<lparr> alerts := filter (\<lambda>alert. alert_id alert \<noteq> alertId) (alerts s),
         toasts := toasts s @ [(Success, ''Alert deleted'')] \<rparr>"

definition handleResetConfirm :: "panel \<Rightarrow> panel" where
  "handleResetConfirm s =
     s \<lparr> alerts := [],
         toasts := toasts s @ [(Success, ''System reset complete'')] \<rparr>"

text \<open>
  \<^verbatim>\<open>!alert.isExpanded\<close> is \<^verbatim>\<open>true\<close> when the field is \<^verbatim>\<open>undefined\<close> or
  \<^verbatim>\<open>false\<close>.
\<close>

definition handleToggleAlertExpand :: "string \<Rightarrow> panel \<Rightarrow> panel" where
  "handleToggleAlertExpand alertId s =
     s \<lparr> alerts :=
           map (\<lambda>alert. if alert_id alert = alertId
                        then alert \<lparr> alert_isExpanded := Some (alert_isExpanded alert \<noteq> Some True) \<rparr>
                        else alert)
               (alerts s) \<rparr>"

subsection \<open>Dispatch and reachable states\<close>

text \<open>
  The operations of the control panel as one datatype, and the handler each one runs.
\<close>

datatype action =
    AddIssue string issueData
  | FixIssue string
  | IsolatePole string
  | RestorePole string
  | DeleteAlert string
  | ResetConfirm
  | ToggleAlertExpand string

fun perform :: "env \<Rightarrow> action \<Rightarrow> panel \<Rightarrow> panel" where
  "perform e (AddIssue poleId d) s = handleAddIssue e poleId d s"
| "perform e (FixIssue poleId) s = handleFixIssue e poleId s"
| "perform e (IsolatePole poleId) s = handleIsolatePole e poleId s"
| "perform e (RestorePole poleId) s = handleRestorePole e poleId s"
| "perform e (DeleteAlert alertId) s = handleDeleteAlert alertId s"
| "perform e ResetConfirm s = handleResetConfirm s"
| "perform e (ToggleAlertExpand alertId) s = handleToggleAlertExpand alertId s"

text \<open>
  The states the component can be in: the state after mounting, and the state after any
  handler call in such a state, with any argument and any reading of the clock and of
  \<^verbatim>\<open>Math.random()\<close>. The buttons offer fewer calls than that (for instance
  \<^verbatim>\<open>Fix\<close> only for a faulty pole), so every state the user can reach is among them.
\<close>

inductive reachable :: "panel \<Rightarrow> bool" where
  reachable_init: "reachable initialState"
| reachable_step: "reachable s \<Longrightarrow> reachable (perform e a s)"

subsection \<open>The alerts section of the control panel\<close>

text \<open>
  \<^verbatim>\<open>faultyPoles\<close> and \<^verbatim>\<open>hasActiveFaults\<close> as the component computes them, and the
  part of the JSX under the heading \<^verbatim>\<open>Active Alerts\<close>: a badge with
  \<^verbatim>\<open>alerts.length\<close>, and below it either one card per alert or the message
  \<^verbatim>\<open>All lines are healthy\<close>.
\<close>

definition faultyPoles :: "panel \<Rightarrow> PoleData list" where
  "faultyPoles s = filter (\<lambda>pole. pole_status pole = Faulty) (poles s)"

definition hasActiveFaults :: "panel \<Rightarrow> bool" where
  "hasActiveFaults s = (length (faultyPoles s) > 0)"

datatype alertList = AlertCards "Alert list" | AllLinesHealthy

record alertsSection =
  badge :: nat
  body :: alertList

definition renderAlerts :: "panel \<Rightarrow> alertsSection" where
  "renderAlerts s =
     \<lparr> badge = length (alerts s),
       body = (if hasActiveFaults s then AlertCards (alerts s) else AllLinesHealthy) \<rparr>"

text \<open>
  Two fixed readings of the outside world, for evaluating the handlers: in \<open>env0\<close> every
  draw is one half, in \<open>env1\<close> every draw is \<open>1 - 2 powi (- 52)\<close>, the largest value
  below 1 on the grid of step \<open>2 powi (- 52)\<close>.
\<close>

definition env0 :: env where
  "env0 = \<lparr> mathRandom = (\<lambda>n. 1 / 2), nowIso = ''2024-01-15T11:00:00.000Z'', nowMs = 1705316400000 \<rparr>"

definition env1 :: env where
  "env1 = \<lparr> mathRandom = (\<lambda>n. 1 - 1 / 2 ^ 52), nowIso = ''2024-01-15T11:00:00.000Z'',
            nowMs = 1705316400000 \<rparr>"

section \<open>Properties\<close>

subsection \<open>The map over the registry\<close>

lemma length_updatePoles [simp]: "length (updatePoles upd k poleId ps) = length ps"
  by (induction ps arbitrary: k) auto

lemma nth_updatePoles_other:
  "i < length ps \<Longrightarrow> pole_id (ps ! i) \<noteq> poleId \<Longrightarrow> updatePoles upd k poleId ps ! i = ps ! i"
  by (induction ps arbitrary: k i) (auto simp: nth_Cons split: nat.splits)

text \<open>
  A pole with the given id is replaced by the object of the first branch; the counter it
  sees is the number of poles with that id to its left.
\<close>

lemma nth_updatePoles_match:
  "i < length ps \<Longrightarrow> pole_id (ps ! i) = poleId \<Longrightarrow>
   updatePoles upd k poleId ps ! i =
     upd (k + length (filter (\<lambda>p. pole_id p = poleId) (take i ps))) (ps ! i)"
  by (induction ps arbitrary: k i) (auto simp: nth_Cons split: nat.splits)

lemma map_id_updatePoles:
  "(\<And>k p. pole_id (upd k p) = pole_id p) \<Longrightarrow>
   map pole_id (updatePoles upd k poleId ps) = map pole_id ps"
  by (induction ps arbitrary: k) auto

lemma updatePoles_absent:
  "poleId \<notin> set (map pole_id ps) \<Longrightarrow> updatePoles upd k poleId ps = ps"
  by (induction ps arbitrary: k) auto

subsection \<open>Rounding to binary64\<close>

text \<open>Rounding to an integer does not cross an integer, and finds the nearest one.\<close>

lemma rne_ge: "of_int n \<le> y \<Longrightarrow> n \<le> rne y"
proof -
  assume "of_int n \<le> y"
  then have "n \<le> \<lfloor>y\<rfloor>" by (simp add: le_floor_iff)
  then show ?thesis by (simp add: rne_def Let_def)
qed

lemma rne_le: "y \<le> of_int m \<Longrightarrow> rne y \<le> m"
proof -
  assume a: "y \<le> of_int m"
  show ?thesis
  proof (cases "y = of_int m")
    case True
    then show ?thesis by (simp add: rne_def Let_def)
  next
    case False
    with a have "y < of_int m" by simp
    then have "\<lfloor>y\<rfloor> < m" by (simp add: floor_less_iff)
    then show ?thesis by (simp add: rne_def Let_def)
  qed
qed

lemma rne_nearest: "\<bar>y - of_int n\<bar> < 1 / 2 \<Longrightarrow> rne y = n"
proof -
  assume a: "\<bar>y - of_int n\<bar> < 1 / 2"
  show ?thesis
  proof (cases "of_int n \<le> y")
    case True
    with a have "\<lfloor>y\<rfloor> = n" by (intro floor_unique) auto
    with a True show ?thesis by (simp add: rne_def Let_def)
  next
    case False
    with a have f: "\<lfloor>y\<rfloor> = n - 1" by (intro floor_unique) auto
    from a False have "1 / 2 < y - of_int (n - 1)" by auto
    with f show ?thesis by (simp add: rne_def Let_def)
  qed
qed

text \<open>
  The exponent of a number in a given binade, and the spacing below \<open>2 ^ 53\<close>, where it
  is one over a power of two, so that every integer lies on the grid.
\<close>

lemma ulp_pos: "0 < ulp x"
  by (simp add: ulp_def)

lemma expo_eq:
  assumes "2 powi e \<le> \<bar>x\<bar>" and "\<bar>x\<bar> < 2 powi (e + 1)" and "- 1022 \<le> e"
  shows "expo x = e"
proof -
  define m where "m = \<lfloor>\<bar>x\<bar> * 2 ^ 1074\<rfloor>"
  have p: "(2::real) powi (e + 1074) = 2 powi e * 2 ^ 1074"
    "(2::real) powi (e + 1075) = 2 powi (e + 1) * 2 ^ 1074"
    by (simp_all add: power_int_add)
  have nn: "0 \<le> e + 1074" using assms(3) by simp
  have lo: "(2::real) ^ nat (e + 1074) \<le> \<bar>x\<bar> * 2 ^ 1074"
    using assms(1) p(1) nn by (simp add: power_int_nonneg_exp flip: )
  have hi: "\<bar>x\<bar> * 2 ^ 1074 < (2::real) ^ nat (e + 1075)"
    using assms(2) p(2) nn by (simp add: power_int_nonneg_exp)
  have "of_int (2 ^ nat (e + 1074)) \<le> \<bar>x\<bar> * 2 ^ 1074" using lo by simp
  then have mlo: "2 ^ nat (e + 1074) \<le> m" unfolding m_def by (simp only: le_floor_iff)
  have "\<bar>x\<bar> * 2 ^ 1074 < of_int (2 ^ nat (e + 1075))" using hi by simp
  then have mhi: "m < 2 ^ nat (e + 1075)" unfolding m_def by (simp only: floor_less_iff)
  have "bitlen m \<le> e + 1075"
    using mhi nn by (simp add: bitlen_le_iff_power)
  moreover have "e + 1075 \<le> bitlen m"
  proof -
    have "nat (e + 1075) - 1 = nat (e + 1074)" using nn by simp
    with mlo show ?thesis by (simp add: bitlen_ge_iff_power)
  qed
  ultimately have "bitlen m = e + 1075" by simp
  then show ?thesis using assms(3) by (simp add: expo_def m_def)
qed

lemma expo_le:
  assumes "\<bar>x\<bar> < 2 ^ 53"
  shows "expo x \<le> 52"
proof -
  have "\<bar>x\<bar> * 2 ^ 1074 < 2 ^ 53 * 2 ^ 1074" using assms by simp
  also have "\<dots> = (2::real) ^ 1127" by (simp flip: power_add)
  finally have "\<bar>x\<bar> * 2 ^ 1074 < of_int (2 ^ 1127)" by simp
  then have "\<lfloor>\<bar>x\<bar> * 2 ^ 1074\<rfloor> < 2 ^ 1127" by (simp only: floor_less_iff)
  then have "bitlen \<lfloor>\<bar>x\<bar> * 2 ^ 1074\<rfloor> \<le> 1127"
    by (simp add: bitlen_le_iff_power)
  then show ?thesis by (simp add: expo_def)
qed

lemma ulp_grid:
  assumes "\<bar>x\<bar> < 2 ^ 53"
  shows "\<exists>k::nat. ulp x = 1 / 2 ^ k"
proof -
  have "expo x - 52 \<le> 0" using expo_le [OF assms] by simp
  then have "expo x - 52 = - int (nat (52 - expo x))" by simp
  then have "ulp x = 2 powi (- int (nat (52 - expo x)))" by (simp add: ulp_def)
  also have "\<dots> = 1 / 2 ^ nat (52 - expo x)"
    by (simp only: power_int_minus_divide power_int_of_nat)
  finally show ?thesis by blast
qed

text \<open>Below \<open>2 ^ 53\<close> rounding does not cross an integer.\<close>

lemma round64_le_int:
  assumes "x \<le> of_int m" and "\<bar>x\<bar> < 2 ^ 53"
  shows "round64 x \<le> of_int m"
proof -
  obtain k :: nat where k: "ulp x = 1 / 2 ^ k" using ulp_grid [OF assms(2)] by blast
  have "x * 2 ^ k \<le> of_int (m * 2 ^ k)" using assms(1) by simp
  then have "rne (x * 2 ^ k) \<le> m * 2 ^ k" by (rule rne_le)
  then have "(of_int (rne (x * 2 ^ k)) :: real) \<le> of_int (m * 2 ^ k)" by (simp only: of_int_le_iff)
  then have "(of_int (rne (x * 2 ^ k)) :: real) / 2 ^ k \<le> of_int m"
    by (simp add: field_simps)
  then show ?thesis by (simp add: round64_def k)
qed

lemma round64_ge_int:
  assumes "of_int n \<le> x" and "\<bar>x\<bar> < 2 ^ 53"
  shows "of_int n \<le> round64 x"
proof -
  obtain k :: nat where k: "ulp x = 1 / 2 ^ k" using ulp_grid [OF assms(2)] by blast
  have "of_int (n * 2 ^ k) \<le> x * 2 ^ k" using assms(1) by simp
  then have "n * 2 ^ k \<le> rne (x * 2 ^ k)" by (rule rne_ge)
  then have "(of_int (n * 2 ^ k) :: real) \<le> of_int (rne (x * 2 ^ k))" by (simp only: of_int_le_iff)
  then have "of_int n \<le> (of_int (rne (x * 2 ^ k)) :: real) / 2 ^ k"
    by (simp add: field_simps)
  then show ?thesis by (simp add: round64_def k)
qed

text \<open>
  The two expressions of the handlers, for a draw that is at least 0 and less than 1.
\<close>

lemma draw_scaled_bounds:
  assumes "0 \<le> r" and "r < 1"
  shows "230 \<le> fadd 230 (fmul r 10) \<and> fadd 230 (fmul r 10) \<le> 240 \<and>
         15 \<le> fadd 15 (fmul r 5) \<and> fadd 15 (fmul r 5) \<le> 20"
proof -
  have a: "of_int 0 \<le> r * 10" "r * 10 \<le> of_int 10" "\<bar>r * 10\<bar> < 2 ^ 53"
    using assms by simp_all
  have m10: "0 \<le> fmul r 10" "fmul r 10 \<le> 10"
    using round64_ge_int [OF a(1) a(3)] round64_le_int [OF a(2) a(3)]
    by (simp_all add: fmul_def)
  have b: "of_int 0 \<le> r * 5" "r * 5 \<le> of_int 5" "\<bar>r * 5\<bar> < 2 ^ 53"
    using assms by simp_all
  have m5: "0 \<le> fmul r 5" "fmul r 5 \<le> 5"
    using round64_ge_int [OF b(1) b(3)] round64_le_int [OF b(2) b(3)]
    by (simp_all add: fmul_def)
  have c: "of_int 230 \<le> 230 + fmul r 10" "230 + fmul r 10 \<le> of_int 240"
    "\<bar>230 + fmul r 10\<bar> < 2 ^ 53"
    using m10 by simp_all
  have d: "of_int 15 \<le> 15 + fmul r 5" "15 + fmul r 5 \<le> of_int 20"
    "\<bar>15 + fmul r 5\<bar> < 2 ^ 53"
    using m5 by simp_all
  show ?thesis
    using round64_ge_int [OF c(1) c(3)] round64_le_int [OF c(2) c(3)]
      round64_ge_int [OF d(1) d(3)] round64_le_int [OF d(2) d(3)]
    by (simp add: fadd_def)
qed

text \<open>
  The value of \<open>round64\<close> at a number whose binade is known, from the integer nearest to
  the number counted in units of that binade's spacing.
\<close>

lemma round64_eval:
  assumes "2 powi e \<le> \<bar>x\<bar>" and "\<bar>x\<bar> < 2 powi (e + 1)" and "- 1022 \<le> e"
    and "\<bar>x / 2 powi (e - 52) - of_int n\<bar> < 1 / 2"
  shows "round64 x = of_int n * 2 powi (e - 52)"
  using rne_nearest [OF assms(4)] expo_eq [OF assms(1-3)]
  by (simp add: round64_def ulp_def)

subsection \<open>Isolating a pole\<close>

text \<open>
  Claim C1. For every pole \<open>p\<close> of the registry (the pole at any position \<open>i\<close>),
  \<^verbatim>\<open>handleIsolatePole(p.id)\<close> gives a state in which the pole at that position still has
  the id of \<open>p\<close>, has status isolated, voltage 0 and current 0, has \<^verbatim>\<open>isolatedBy\<close> equal
  to \<^verbatim>\<open>"Manual Control"\<close> and \<^verbatim>\<open>isolatedAt\<close> set (to the time of the call); the
  registry keeps its length, and every pole with another id is unchanged.
\<close>

theorem isolate_sets_pole_isolated:
  assumes "i < length (poles s)"
  shows "let p = poles s ! i;
             s' = handleIsolatePole e (pole_id p) s;
             p' = poles s' ! i
         in length (poles s') = length (poles s) \<and>
            pole_id p' = pole_id p \<and>
            pole_status p' = Isolated \<and>
            pole_voltage p' = 0 \<and>
            pole_current p' = 0 \<and>
            pole_isolatedBy p' = Some ''Manual Control'' \<and>
            pole_isolatedAt p' = Some (nowIso e) \<and>
            (\<forall>j < length (poles s).
               pole_id (poles s ! j) \<noteq> pole_id p \<longrightarrow> poles s' ! j = poles s ! j)"
  using assms
  by (simp add: handleIsolatePole_def Let_def nth_updatePoles_match nth_updatePoles_other)

text \<open>Isolating P001 in the state after mounting; P002 is untouched.\<close>

theorem isolate_sets_pole_isolated_witness:
  "pole_status (poles (handleIsolatePole env0 ''P001'' initialState) ! 0) = Isolated \<and>
   pole_voltage (poles (handleIsolatePole env0 ''P001'' initialState) ! 0) = 0 \<and>
   pole_current (poles (handleIsolatePole env0 ''P001'' initialState) ! 0) = 0 \<and>
   pole_isolatedBy (poles (handleIsolatePole env0 ''P001'' initialState) ! 0)
     = Some ''Manual Control'' \<and>
   pole_isolatedAt (poles (handleIsolatePole env0 ''P001'' initialState) ! 0)
     = Some ''2024-01-15T11:00:00.000Z'' \<and>
   poles (handleIsolatePole env0 ''P001'' initialState) ! 1 = mockPoles ! 1"
proof -
  have len: "(0::nat) < length (poles initialState)"
    by (simp add: initialState_def mockPoles_def)
  have p0: "pole_id (poles initialState ! 0) = ''P001''"
    by (simp add: initialState_def mockPoles_def)
  have p1: "pole_id (poles initialState ! 1) \<noteq> ''P001''"
    "(1::nat) < length (poles initialState)"
    "poles initialState ! 1 = mockPoles ! 1"
    by (simp_all add: initialState_def mockPoles_def)
  show ?thesis
    using isolate_sets_pole_isolated [OF len, of env0] p1
    by (simp add: Let_def p0 env0_def)
qed

subsection \<open>Alerts removed and added\<close>

text \<open>
  When the keys of a list are distinct, filtering out one key that occurs removes one
  element.
\<close>

lemma length_filter_distinct_key:
  "distinct (map f xs) \<Longrightarrow> x \<in> set (map f xs) \<Longrightarrow>
   Suc (length (filter (\<lambda>a. f a \<noteq> x) xs)) = length xs"
proof (induction xs)
  case Nil
  then show ?case by simp
next
  case (Cons a xs)
  show ?case
  proof (cases "f a = x")
    case True
    with Cons.prems have "x \<notin> f ` set xs" by auto
    then have "filter (\<lambda>a. f a \<noteq> x) xs = xs"
      by (auto simp: filter_id_conv)
    with True show ?thesis by simp
  next
    case False
    with Cons show ?thesis by auto
  qed
qed

text \<open>
  Claim C4. For every pole id, \<^verbatim>\<open>handleFixIssue\<close> and \<^verbatim>\<open>handleRestorePole\<close> each
  leave in the alert log exactly the alerts whose \<^verbatim>\<open>poleId\<close> differs from that id, in
  their order: an alert is in the new log if and only if it was in the old log and its
  \<^verbatim>\<open>poleId\<close> is not the given one. \<^verbatim>\<open>handleDeleteAlert(alertId)\<close> leaves exactly the
  alerts whose \<^verbatim>\<open>id\<close> differs from \<open>alertId\<close>; when the ids of the log are distinct
  and \<open>alertId\<close> occurs, that is one alert fewer.
\<close>

theorem fix_restore_delete_remove_matching_alerts:
  "alerts (handleFixIssue e poleId s) = filter (\<lambda>a. alert_poleId a \<noteq> poleId) (alerts s) \<and>
   alerts (handleRestorePole e poleId s) = filter (\<lambda>a. alert_poleId a \<noteq> poleId) (alerts s) \<and>
   alerts (handleDeleteAlert alertId s) = filter (\<lambda>a. alert_id a \<noteq> alertId) (alerts s) \<and>
   (\<forall>a. a \<in> set (alerts (handleFixIssue e poleId s)) \<longleftrightarrow>
          a \<in> set (alerts s) \<and> alert_poleId a \<noteq> poleId) \<and>
   (\<forall>a. a \<in> set (alerts (handleRestorePole e poleId s)) \<longleftrightarrow>
          a \<in> set (alerts s) \<and> alert_poleId a \<noteq> poleId) \<and>
   (\<forall>a. a \<in> set (alerts (handleDeleteAlert alertId s)) \<longleftrightarrow>
          a \<in> set (alerts s) \<and> alert_id a \<noteq> alertId) \<and>
   (distinct (map alert_id (alerts s)) \<and> alertId \<in> set (map alert_id (alerts s)) \<longrightarrow>
      Suc (length (alerts (handleDeleteAlert alertId s))) = length (alerts s))"
  using length_filter_distinct_key [of alert_id "alerts s" alertId]
  by (simp add: handleFixIssue_def handleRestorePole_def handleDeleteAlert_def)

text \<open>
  In the state after mounting: fixing P001 leaves A002, restoring P003 leaves A001,
  deleting A001 leaves A002.
\<close>

theorem fix_restore_delete_remove_matching_alerts_witness:
  "alerts (handleFixIssue env0 ''P001'' initialState) = [mockAlerts ! 1] \<and>
   alerts (handleRestorePole env0 ''P003'' initialState) = [mockAlerts ! 0] \<and>
   alerts (handleDeleteAlert ''A001'' initialState) = [mockAlerts ! 1] \<and>
   Suc (length (alerts (handleDeleteAlert ''A001'' initialState))) = length (alerts initialState)"
proof -
  have d: "distinct (map alert_id (alerts initialState))"
    "''A001'' \<in> set (map alert_id (alerts initialState))"
    by (simp_all add: initialState_def mockAlerts_def)
  have f: "filter (\<lambda>a. alert_poleId a \<noteq> ''P001'') (alerts initialState) = [mockAlerts ! 1]"
    "filter (\<lambda>a. alert_poleId a \<noteq> ''P003'') (alerts initialState) = [mockAlerts ! 0]"
    "filter (\<lambda>a. alert_id a \<noteq> ''A001'') (alerts initialState) = [mockAlerts ! 1]"
    by (simp_all add: initialState_def mockAlerts_def)
  show ?thesis
    using fix_restore_delete_remove_matching_alerts [of env0 "''P001''" initialState "''A001''"]
      fix_restore_delete_remove_matching_alerts [of env0 "''P003''" initialState "''A001''"] d f
    by simp
qed

text \<open>
  Claim C5. For every pole id and issue data, \<^verbatim>\<open>handleAddIssue\<close> puts one new alert in
  front of the alert log, whose \<^verbatim>\<open>poleId\<close> is the given id, whose severity is that of
  the data and whose \<^verbatim>\<open>createdBy\<close> is \<^verbatim>\<open>"manual"\<close>; the alerts that were there
  follow it unchanged. Every pole with the given id gets status faulty and the fault type
  and severity of the data; every other pole is unchanged.
\<close>

theorem addIssue_prepends_alert_and_marks_faulty:
  "let s' = handleAddIssue e poleId d s in
     length (alerts s') = Suc (length (alerts s)) \<and>
     tl (alerts s') = alerts s \<and>
     alert_poleId (hd (alerts s')) = poleId \<and>
     alert_severity (hd (alerts s')) = issue_severity d \<and>
     alert_createdBy (hd (alerts s')) = Some Manual \<and>
     length (poles s') = length (poles s) \<and>
     (\<forall>i < length (poles s).
        if pole_id (poles s ! i) = poleId
        then pole_id (poles s' ! i) = poleId \<and>
             pole_status (poles s' ! i) = Faulty \<and>
             pole_faultType (poles s' ! i) = Some (issue_faultType d) \<and>
             pole_severity (poles s' ! i) = Some (issue_severity d)
        else poles s' ! i = poles s ! i)"
  by (simp add: handleAddIssue_def Let_def nth_updatePoles_match nth_updatePoles_other)

text \<open>Adding a line break of low severity to P002 in the state after mounting.\<close>

theorem addIssue_prepends_alert_and_marks_faulty_witness:
  "alert_poleId (hd (alerts (handleAddIssue env0 ''P002''
      \<lparr>issue_faultType = ''Line Break'', issue_severity = Low, issue_description = ''''\<rparr>
      initialState))) = ''P002'' \<and>
   tl (alerts (handleAddIssue env0 ''P002''
      \<lparr>issue_faultType = ''Line Break'', issue_severity = Low, issue_description = ''''\<rparr>
      initialState)) = mockAlerts \<and>
   pole_status (poles (handleAddIssue env0 ''P002''
      \<lparr>issue_faultType = ''Line Break'', issue_severity = Low, issue_description = ''''\<rparr>
      initialState) ! 1) = Faulty \<and>
   pole_faultType (poles (handleAddIssue env0 ''P002''
      \<lparr>issue_faultType = ''Line Break'', issue_severity = Low, issue_description = ''''\<rparr>
      initialState) ! 1) = Some ''Line Break'' \<and>
   pole_severity (poles (handleAddIssue env0 ''P002''
      \<lparr>issue_faultType = ''Line Break'', issue_severity = Low, issue_description = ''''\<rparr>
      initialState) ! 1) = Some Low \<and>
   poles (handleAddIssue env0 ''P002''
      \<lparr>issue_faultType = ''Line Break'', issue_severity = Low, issue_description = ''''\<rparr>
      initialState) ! 0 = mockPoles ! 0"
proof -
  have p: "(1::nat) < length (poles initialState)" "pole_id (poles initialState ! 1) = ''P002''"
    "(0::nat) < length (poles initialState)" "pole_id (poles initialState ! 0) \<noteq> ''P002''"
    "poles initialState ! 0 = mockPoles ! 0" "alerts initialState = mockAlerts"
    by (simp_all add: initialState_def mockPoles_def)
  show ?thesis
    using addIssue_prepends_alert_and_marks_faulty [of env0 "''P002''"
        "\<lparr>issue_faultType = ''Line Break'', issue_severity = Low, issue_description = ''''\<rparr>"
        initialState] p
    by (auto simp: Let_def)
qed

text \<open>
  Claim C8. When the pole id given to \<^verbatim>\<open>handleAddIssue\<close> does not occur in the
  registry, the registry is unchanged, and still one new alert with that pole id is put
  in front of the alert log: the alert refers to a pole that the registry does not have.
\<close>

theorem addIssue_unknown_pole_dangling_alert:
  assumes "poleId \<notin> set (map pole_id (poles s))"
  shows "let s' = handleAddIssue e poleId d s in
           poles s' = poles s \<and>
           length (alerts s') = Suc (length (alerts s)) \<and>
           tl (alerts s') = alerts s \<and>
           alert_poleId (hd (alerts s')) = poleId \<and>
           alert_poleId (hd (alerts s')) \<notin> set (map pole_id (poles s'))"
  using assms by (simp add: handleAddIssue_def Let_def updatePoles_absent)

text \<open>There is no pole P009; the log grows from two alerts to three.\<close>

theorem addIssue_unknown_pole_dangling_alert_witness:
  "poles (handleAddIssue env0 ''P009''
      \<lparr>issue_faultType = ''Line Break'', issue_severity = Low, issue_description = ''''\<rparr>
      initialState) = mockPoles \<and>
   length (alerts (handleAddIssue env0 ''P009''
      \<lparr>issue_faultType = ''Line Break'', issue_severity = Low, issue_description = ''''\<rparr>
      initialState)) = 3 \<and>
   alert_poleId (hd (alerts (handleAddIssue env0 ''P009''
      \<lparr>issue_faultType = ''Line Break'', issue_severity = Low, issue_description = ''''\<rparr>
      initialState))) = ''P009''"
proof -
  have a: "''P009'' \<notin> set (map pole_id (poles initialState))"
    by (simp add: initialState_def mockPoles_def)
  have b: "poles initialState = mockPoles" "length (alerts initialState) = 2"
    by (simp_all add: initialState_def mockAlerts_def)
  show ?thesis
    using addIssue_unknown_pole_dangling_alert [OF a, of env0
        "\<lparr>issue_faultType = ''Line Break'', issue_severity = Low, issue_description = ''''\<rparr>"] b
    by (simp add: Let_def)
qed

subsection \<open>Fixing a pole\<close>

text \<open>
  Claim C6, amended. For every pole \<open>p\<close> of the registry (the pole at any position \<open>i\<close>)
  and all values of \<^verbatim>\<open>Math.random()\<close> that are at least 0 and less than 1,
  \<^verbatim>\<open>handleFixIssue(p.id)\<close> gives a state in which the pole at that position has status
  healthy, has \<^verbatim>\<open>faultType\<close> and \<^verbatim>\<open>severity\<close> undefined, has the voltage
  \<^verbatim>\<open>230 + r1 * 10\<close> and the current \<^verbatim>\<open>15 + r2 * 5\<close> of binary64 arithmetic for two
  successive draws \<open>r1\<close>, \<open>r2\<close>, hence a voltage from 230 to 240 and a current from 15 to
  20, both ends included; every pole with another id is unchanged.
\<close>

theorem fix_makes_pole_healthy:
  assumes "i < length (poles s)"
    and "\<forall>n. 0 \<le> mathRandom e n \<and> mathRandom e n < 1"
  shows "let p = poles s ! i;
             s' = handleFixIssue e (pole_id p) s;
             p' = poles s' ! i
         in length (poles s') = length (poles s) \<and>
            pole_id p' = pole_id p \<and>
            pole_status p' = Healthy \<and>
            pole_faultType p' = None \<and>
            pole_severity p' = None \<and>
            (\<exists>n. pole_voltage p' = fadd 230 (fmul (mathRandom e (2 * n)) 10) \<and>
                 pole_current p' = fadd 15 (fmul (mathRandom e (2 * n + 1)) 5)) \<and>
            230 \<le> pole_voltage p' \<and> pole_voltage p' \<le> 240 \<and>
            15 \<le> pole_current p' \<and> pole_current p' \<le> 20 \<and>
            (\<forall>j < length (poles s).
               pole_id (poles s ! j) \<noteq> pole_id p \<longrightarrow> poles s' ! j = poles s ! j)"
proof -
  define m where "m = length (filter (\<lambda>q. pole_id q = pole_id (poles s ! i)) (take i (poles s)))"
  have r1: "0 \<le> mathRandom e (2 * m)" "mathRandom e (2 * m) < 1"
    and r2: "0 \<le> mathRandom e (2 * m + 1)" "mathRandom e (2 * m + 1) < 1"
    using assms(2) by simp_all
  have v: "pole_voltage (poles (handleFixIssue e (pole_id (poles s ! i)) s) ! i)
             = fadd 230 (fmul (mathRandom e (2 * m)) 10)"
    and c: "pole_current (poles (handleFixIssue e (pole_id (poles s ! i)) s) ! i)
             = fadd 15 (fmul (mathRandom e (2 * m + 1)) 5)"
    using assms(1) by (simp_all add: handleFixIssue_def nth_updatePoles_match m_def)
  have ex: "\<exists>n. pole_voltage (poles (handleFixIssue e (pole_id (poles s ! i)) s) ! i)
                 = fadd 230 (fmul (mathRandom e (2 * n)) 10) \<and>
               pole_current (poles (handleFixIssue e (pole_id (poles s ! i)) s) ! i)
                 = fadd 15 (fmul (mathRandom e (2 * n + 1)) 5)"
    using v c by blast
  have bounds: "230 \<le> pole_voltage (poles (handleFixIssue e (pole_id (poles s ! i)) s) ! i)"
    "pole_voltage (poles (handleFixIssue e (pole_id (poles s ! i)) s) ! i) \<le> 240"
    "15 \<le> pole_current (poles (handleFixIssue e (pole_id (poles s ! i)) s) ! i)"
    "pole_current (poles (handleFixIssue e (pole_id (poles s ! i)) s) ! i) \<le> 20"
    using draw_scaled_bounds [OF r1] draw_scaled_bounds [OF r2] unfolding v c by simp_all
  have rest: "length (poles (handleFixIssue e (pole_id (poles s ! i)) s)) = length (poles s)"
    "pole_id (poles (handleFixIssue e (pole_id (poles s ! i)) s) ! i) = pole_id (poles s ! i)"
    "pole_status (poles (handleFixIssue e (pole_id (poles s ! i)) s) ! i) = Healthy"
    "pole_faultType (poles (handleFixIssue e (pole_id (poles s ! i)) s) ! i) = None"
    "pole_severity (poles (handleFixIssue e (pole_id (poles s ! i)) s) ! i) = None"
    using assms(1) by (simp_all add: handleFixIssue_def nth_updatePoles_match)
  have others: "\<forall>j < length (poles s). pole_id (poles s ! j) \<noteq> pole_id (poles s ! i) \<longrightarrow>
      poles (handleFixIssue e (pole_id (poles s ! i)) s) ! j = poles s ! j"
    by (simp add: handleFixIssue_def nth_updatePoles_other)
  show ?thesis
    unfolding Let_def using ex bounds rest others by blast
qed

text \<open>Fixing P001 in the state after mounting, every draw being one half.\<close>

theorem fix_makes_pole_healthy_witness:
  "pole_status (poles (handleFixIssue env0 ''P001'' initialState) ! 0) = Healthy \<and>
   pole_faultType (poles (handleFixIssue env0 ''P001'' initialState) ! 0) = None \<and>
   pole_severity (poles (handleFixIssue env0 ''P001'' initialState) ! 0) = None \<and>
   230 \<le> pole_voltage (poles (handleFixIssue env0 ''P001'' initialState) ! 0) \<and>
   pole_voltage (poles (handleFixIssue env0 ''P001'' initialState) ! 0) \<le> 240 \<and>
   15 \<le> pole_current (poles (handleFixIssue env0 ''P001'' initialState) ! 0) \<and>
   pole_current (poles (handleFixIssue env0 ''P001'' initialState) ! 0) \<le> 20 \<and>
   poles (handleFixIssue env0 ''P001'' initialState) ! 1 = mockPoles ! 1"
proof -
  have len: "(0::nat) < length (poles initialState)"
    by (simp add: initialState_def mockPoles_def)
  have draws: "\<forall>n. 0 \<le> mathRandom env0 n \<and> mathRandom env0 n < 1"
    by (simp add: env0_def)
  have p0: "pole_id (poles initialState ! 0) = ''P001''"
    by (simp add: initialState_def mockPoles_def)
  have p1: "pole_id (poles initialState ! 1) \<noteq> ''P001''"
    "(1::nat) < length (poles initialState)"
    "poles initialState ! 1 = mockPoles ! 1"
    by (simp_all add: initialState_def mockPoles_def)
  show ?thesis
    using fix_makes_pole_healthy [OF len draws] p1
    by (simp add: Let_def p0)
qed

text \<open>
  Claim C6 as written puts the voltage below 240 and the current below 20. The draw
  \<open>1 - 2 powi (- 52)\<close> is a binary64 value that is at least 0 and less than 1, and with
  it fixing P001 in the state after mounting gives exactly 240 V and 20 A: the product
  \<^verbatim>\<open>r * 10\<close> rounds to \<open>10 - 2 powi (- 49)\<close> and the sum with 230 rounds up to 240;
  the product \<^verbatim>\<open>r * 5\<close> rounds to \<open>5 - 2 powi (- 50)\<close> and the sum with 15 rounds up
  to 20.
\<close>

theorem fix_reaches_upper_bounds_counterexample:
  "0 \<le> mathRandom env1 0 \<and> mathRandom env1 0 < 1 \<and>
   round64 (mathRandom env1 0) = mathRandom env1 0 \<and>
   0 \<le> mathRandom env1 1 \<and> mathRandom env1 1 < 1 \<and>
   round64 (mathRandom env1 1) = mathRandom env1 1 \<and>
   pole_id (poles initialState ! 0) = ''P001'' \<and>
   pole_voltage (poles (handleFixIssue env1 ''P001'' initialState) ! 0) = 240 \<and>
   pole_current (poles (handleFixIssue env1 ''P001'' initialState) ! 0) = 20"
proof -
  have draw: "round64 (1 - 1 / 2 ^ 52) = 1 - 1 / 2 ^ 52"
    using round64_eval [of "- 1" "1 - 1 / 2 ^ 52" "2 ^ 53 - 2"] by simp
  have mul10: "fmul (1 - 1 / 2 ^ 52) 10 = 10 - 1 / 2 ^ 49"
    using round64_eval [of 3 "(1 - 1 / 2 ^ 52) * 10" "10 * 2 ^ 49 - 1"]
    by (simp add: fmul_def)
  have add230: "fadd 230 (10 - 1 / 2 ^ 49) = 240"
    using round64_eval [of 7 "230 + (10 - 1 / 2 ^ 49)" "240 * 2 ^ 45"]
    by (simp add: fadd_def)
  have mul5: "fmul (1 - 1 / 2 ^ 52) 5 = 5 - 1 / 2 ^ 50"
    using round64_eval [of 2 "(1 - 1 / 2 ^ 52) * 5" "5 * 2 ^ 50 - 1"]
    by (simp add: fmul_def)
  have add15: "fadd 15 (5 - 1 / 2 ^ 50) = 20"
    using round64_eval [of 4 "15 + (5 - 1 / 2 ^ 50)" "20 * 2 ^ 48"]
    by (simp add: fadd_def)
  have v: "pole_voltage (poles (handleFixIssue env1 ''P001'' initialState) ! 0)
             = fadd 230 (fmul (1 - 1 / 2 ^ 52) 10)"
    and c: "pole_current (poles (handleFixIssue env1 ''P001'' initialState) ! 0)
             = fadd 15 (fmul (1 - 1 / 2 ^ 52) 5)"
    and p: "pole_id (poles initialState ! 0) = ''P001''"
    by (simp_all add: handleFixIssue_def initialState_def mockPoles_def env1_def)
  have d: "mathRandom env1 0 = 1 - 1 / 2 ^ 52" "mathRandom env1 1 = 1 - 1 / 2 ^ 52"
    by (simp_all add: env1_def)
  have range: "(0::real) \<le> 1 - 1 / 2 ^ 52" "(1::real) - 1 / 2 ^ 52 < 1"
    by simp_all
  show ?thesis
    unfolding v c d mul10 add230 mul5 add15 draw using range p by simp
qed

subsection \<open>The registry keeps its poles\<close>

lemma perform_preserves_ids:
  "map pole_id (poles (perform e a s)) = map pole_id (poles s)"
  by (cases a)
    (simp_all add: handleAddIssue_def handleFixIssue_def handleIsolatePole_def
      handleRestorePole_def handleDeleteAlert_def handleResetConfirm_def
      handleToggleAlertExpand_def Let_def map_id_updatePoles)

lemma reachable_ids:
  "reachable s \<Longrightarrow> map pole_id (poles s) = [''P001'', ''P002'', ''P003'', ''P004'', ''P005'']"
proof (induction rule: reachable.induct)
  case reachable_init
  show ?case by (simp add: initialState_def mockPoles_def)
next
  case (reachable_step s e a)
  then show ?case by (simp add: perform_preserves_ids)
qed

text \<open>
  Claim C9. Every operation (add issue, fix, isolate, restore, delete alert, reset, toggle
  expand) leaves the ids of the registry as they are, pole by pole: none adds or removes a
  pole. So in every reachable state, and after any operation in it, the registry holds
  exactly the five mock poles P001 to P005.
\<close>

theorem operations_preserve_pole_ids:
  "map pole_id (poles (perform e a s)) = map pole_id (poles s) \<and>
   (reachable s \<longrightarrow>
      map pole_id (poles s) = [''P001'', ''P002'', ''P003'', ''P004'', ''P005''] \<and>
      map pole_id (poles (perform e a s)) = [''P001'', ''P002'', ''P003'', ''P004'', ''P005''])"
  using perform_preserves_ids [of e a s] reachable_ids [of s] by simp

text \<open>Restoring P003 in the state after mounting.\<close>

theorem operations_preserve_pole_ids_witness:
  "reachable (perform env0 (RestorePole ''P003'') initialState) \<and>
   map pole_id (poles (perform env0 (RestorePole ''P003'') initialState))
     = [''P001'', ''P002'', ''P003'', ''P004'', ''P005'']"
  using operations_preserve_pole_ids [of env0 "RestorePole ''P003''" initialState]
    reachable_init reachable_step [OF reachable_init, of env0 "RestorePole ''P003''"]
  by simp

subsection \<open>Isolated poles report no voltage and no current\<close>

text \<open>
  A property of poles that holds of every pole before the map, and of every object the
  first branch builds, holds of every pole after it.
\<close>

lemma updatePoles_all:
  "\<forall>p \<in> set ps. P p \<Longrightarrow> (\<And>k p. P (upd k p)) \<Longrightarrow>
   \<forall>p \<in> set (updatePoles upd k poleId ps). P p"
  by (induction ps arbitrary: k) auto

lemma perform_isolated_zero:
  assumes inv: "\<forall>p \<in> set (poles s).
           pole_status p = Isolated \<longrightarrow> pole_voltage p = 0 \<and> pole_current p = 0"
  shows "\<forall>p \<in> set (poles (perform e a s)).
           pole_status p = Isolated \<longrightarrow> pole_voltage p = 0 \<and> pole_current p = 0"
proof (cases a)
  case (AddIssue poleId d)
  have "\<forall>p \<in> set (updatePoles
           (\<lambda>k pole. pole \<lparr> pole_status := Faulty,
                           pole_faultType := Some (issue_faultType d),
                           pole_severity := Some (issue_severity d),
                           pole_lastUpdated := nowIso e \<rparr>)
           0 poleId (poles s)).
           pole_status p = Isolated \<longrightarrow> pole_voltage p = 0 \<and> pole_current p = 0"
    by (rule updatePoles_all [OF inv]) simp
  with AddIssue show ?thesis
    by (simp add: handleAddIssue_def Let_def)
next
  case (FixIssue poleId)
  have "\<forall>p \<in> set (updatePoles
           (\<lambda>k pole. pole \<lparr> pole_status := Healthy,
                           pole_faultType := None,
                           pole_severity := None,
                           pole_lastUpdated := nowIso e,
                           pole_voltage := fadd 230 (fmul (mathRandom e (2 * k)) 10),
                           pole_current := fadd 15 (fmul (mathRandom e (2 * k + 1)) 5) \<rparr>)
           0 poleId (poles s)).
           pole_status p = Isolated \<longrightarrow> pole_voltage p = 0 \<and> pole_current p = 0"
    by (rule updatePoles_all [OF inv]) simp
  with FixIssue show ?thesis
    by (simp add: handleFixIssue_def)
next
  case (IsolatePole poleId)
  have "\<forall>p \<in> set (updatePoles
           (\<lambda>k pole. pole \<lparr> pole_status := Isolated,
                           pole_voltage := 0,
                           pole_current := 0,
                           pole_isolatedBy := Some ''Manual Control'',
                           pole_isolatedAt := Some (nowIso e),
                           pole_lastUpdated := nowIso e \<rparr>)
           0 poleId (poles s)).
           pole_status p = Isolated \<longrightarrow> pole_voltage p = 0 \<and> pole_current p = 0"
    by (rule updatePoles_all [OF inv]) simp
  with IsolatePole show ?thesis
    by (simp add: handleIsolatePole_def)
next
  case (RestorePole poleId)
  have "\<forall>p \<in> set (updatePoles
           (\<lambda>k pole. pole \<lparr> pole_status := Healthy,
                           pole_voltage := fadd 230 (fmul (mathRandom e (2 * k)) 10),
                           pole_current := fadd 15 (fmul (mathRandom e (2 * k + 1)) 5),
                           pole_isolatedBy := None,
                           pole_isolatedAt := None,
                           pole_faultType := None,
                           pole_severity := None,
                           pole_lastUpdated := nowIso e \<rparr>)
           0 poleId (poles s)).
           pole_status p = Isolated \<longrightarrow> pole_voltage p = 0 \<and> pole_current p = 0"
    by (rule updatePoles_all [OF inv]) simp
  with RestorePole show ?thesis
    by (simp add: handleRestorePole_def)
next
  case (DeleteAlert alertId)
  then show ?thesis using inv by (simp add: handleDeleteAlert_def)
next
  case ResetConfirm
  then show ?thesis using inv by (simp add: handleResetConfirm_def)
next
  case (ToggleAlertExpand alertId)
  then show ?thesis using inv by (simp add: handleToggleAlertExpand_def)
qed


text \<open>
  Claim C3, amended. In every reachable state, every pole whose status is isolated has
  voltage 0 and current 0. (The claim as written also covers poles in maintenance; the
  mock data has P005 in maintenance at 220 V and 10 A, see the counterexample below, and no
  handler sets the status maintenance.)
\<close>

theorem isolated_poles_report_zero:
  assumes "reachable s"
  shows "\<forall>p \<in> set (poles s).
           pole_status p = Isolated \<longrightarrow> pole_voltage p = 0 \<and> pole_current p = 0"
  using assms
proof (induction rule: reachable.induct)
  case reachable_init
  show ?case by (simp add: initialState_def mockPoles_def)
next
  case (reachable_step s e a)
  from reachable_step.IH show ?case by (rule perform_isolated_zero)
qed

text \<open>Isolating the healthy pole P002, which reported 230 V and 18 A.\<close>

theorem isolated_poles_report_zero_witness:
  "reachable (perform env0 (IsolatePole ''P002'') initialState) \<and>
   pole_status (poles (perform env0 (IsolatePole ''P002'') initialState) ! 1) = Isolated \<and>
   pole_voltage (poles (perform env0 (IsolatePole ''P002'') initialState) ! 1) = 0 \<and>
   pole_current (poles (perform env0 (IsolatePole ''P002'') initialState) ! 1) = 0"
proof -
  have r: "reachable (perform env0 (IsolatePole ''P002'') initialState)"
    by (rule reachable_step [OF reachable_init])
  have m: "poles (perform env0 (IsolatePole ''P002'') initialState) ! 1
             \<in> set (poles (perform env0 (IsolatePole ''P002'') initialState))"
    by (simp add: handleIsolatePole_def initialState_def mockPoles_def)
  have st: "pole_status (poles (perform env0 (IsolatePole ''P002'') initialState) ! 1) = Isolated"
    by (simp add: handleIsolatePole_def initialState_def mockPoles_def)
  show ?thesis
    using isolated_poles_report_zero [OF r] r m st by blast
qed

text \<open>
  Claim C3 as written fails in the state after mounting: P005 is in maintenance and
  reports 220 V and 10 A.
\<close>

theorem maintenance_pole_reports_nonzero_counterexample:
  "reachable initialState \<and>
   pole_id (poles initialState ! 4) = ''P005'' \<and>
   pole_status (poles initialState ! 4) = Maintenance \<and>
   pole_voltage (poles initialState ! 4) = 220 \<and>
   pole_current (poles initialState ! 4) = 10 \<and>
   pole_voltage (poles initialState ! 4) \<noteq> 0 \<and>
   pole_current (poles initialState ! 4) \<noteq> 0"
  using reachable_init by (simp add: initialState_def mockPoles_def)

subsection \<open>What each operation writes\<close>

text \<open>
  Claim C2, amended. \<^verbatim>\<open>handleIsolatePole\<close> sets the status of the pole with the given
  id to isolated and leaves the alert log as it is; \<^verbatim>\<open>handleResetConfirm\<close> empties the
  alert log and leaves the registry as it is; \<^verbatim>\<open>handleRestorePole\<close> and
  \<^verbatim>\<open>handleFixIssue\<close> set the status of the pole to healthy and remove the alerts with
  its pole id; \<^verbatim>\<open>handleAddIssue\<close> sets the status of the pole to faulty and adds one
  alert.
\<close>

theorem operations_write_poles_or_alerts:
  "alerts (handleIsolatePole e poleId s) = alerts s \<and>
   poles (handleResetConfirm s) = poles s \<and>
   alerts (handleResetConfirm s) = [] \<and>
   alerts (handleRestorePole e poleId s) = filter (\<lambda>a. alert_poleId a \<noteq> poleId) (alerts s) \<and>
   alerts (handleFixIssue e poleId s) = filter (\<lambda>a. alert_poleId a \<noteq> poleId) (alerts s) \<and>
   length (alerts (handleAddIssue e poleId d s)) = Suc (length (alerts s)) \<and>
   (\<forall>i < length (poles s). pole_id (poles s ! i) = poleId \<longrightarrow>
      pole_status (poles (handleIsolatePole e poleId s) ! i) = Isolated \<and>
      pole_status (poles (handleRestorePole e poleId s) ! i) = Healthy \<and>
      pole_status (poles (handleFixIssue e poleId s) ! i) = Healthy \<and>
      pole_status (poles (handleAddIssue e poleId d s) ! i) = Faulty)"
  by (simp add: handleIsolatePole_def handleResetConfirm_def handleRestorePole_def
      handleFixIssue_def handleAddIssue_def Let_def nth_updatePoles_match)

text \<open>The five operations on P001 in the state after mounting.\<close>

theorem operations_write_poles_or_alerts_witness:
  "alerts (handleIsolatePole env0 ''P001'' initialState) = mockAlerts \<and>
   poles (handleResetConfirm initialState) = mockPoles \<and>
   alerts (handleResetConfirm initialState) = [] \<and>
   pole_status (poles (handleIsolatePole env0 ''P001'' initialState) ! 0) = Isolated \<and>
   pole_status (poles (handleRestorePole env0 ''P001'' initialState) ! 0) = Healthy \<and>
   pole_status (poles (handleFixIssue env0 ''P001'' initialState) ! 0) = Healthy \<and>
   pole_status (poles (handleAddIssue env0 ''P001''
      \<lparr>issue_faultType = ''Line Break'', issue_severity = Low, issue_description = ''''\<rparr>
      initialState) ! 0) = Faulty"
proof -
  have p: "(0::nat) < length (poles initialState)" "pole_id (poles initialState ! 0) = ''P001''"
    "poles initialState = mockPoles" "alerts initialState = mockAlerts"
    by (simp_all add: initialState_def mockPoles_def)
  show ?thesis
    using operations_write_poles_or_alerts [of env0 "''P001''" initialState
        "\<lparr>issue_faultType = ''Line Break'', issue_severity = Low, issue_description = ''''\<rparr>"] p
    by auto
qed

text \<open>
  Claim C2 as written says that each of the five operations changes both a pole status and
  the alert log. In the state after mounting, which has the pole P001, isolating P001
  leaves the alert log unchanged, and the reset leaves every pole status unchanged.
\<close>

theorem isolate_and_reset_counterexample:
  "''P001'' \<in> set (map pole_id (poles initialState)) \<and>
   alerts (handleIsolatePole env0 ''P001'' initialState) = alerts initialState \<and>
   map pole_status (poles (handleResetConfirm initialState)) = map pole_status (poles initialState)"
  by (simp add: handleIsolatePole_def handleResetConfirm_def initialState_def mockPoles_def)

subsection \<open>No operation fails\<close>

text \<open>
  Claim C7. Every operation, in every state and with every pole id or alert id, returns a
  successor state; no handler has an error result. Each of add issue, fix, isolate,
  restore, delete alert and reset adds exactly one toast, a success toast. With a pole id
  that is not in the registry the four pole operations return a state with the registry
  unchanged, and with an alert id that is not in the log the deletion returns a state with
  the log unchanged.
\<close>

theorem operations_always_succeed:
  "(\<exists>s'. perform e a s = s') \<and>
   ((\<forall>alertId. a \<noteq> ToggleAlertExpand alertId) \<longrightarrow>
      (\<exists>msg. toasts (perform e a s) = toasts s @ [(Success, msg)])) \<and>
   (poleId \<notin> set (map pole_id (poles s)) \<longrightarrow>
      poles (perform e (IsolatePole poleId) s) = poles s \<and>
      poles (perform e (RestorePole poleId) s) = poles s \<and>
      poles (perform e (FixIssue poleId) s) = poles s \<and>
      poles (perform e (AddIssue poleId d) s) = poles s) \<and>
   (alertId \<notin> set (map alert_id (alerts s)) \<longrightarrow>
      alerts (perform e (DeleteAlert alertId) s) = alerts s)"
proof -
  have toast: "(\<forall>alertId. a \<noteq> ToggleAlertExpand alertId) \<longrightarrow>
      (\<exists>msg. toasts (perform e a s) = toasts s @ [(Success, msg)])"
    by (cases a)
      (simp_all add: handleAddIssue_def handleFixIssue_def handleIsolatePole_def
        handleRestorePole_def handleDeleteAlert_def handleResetConfirm_def Let_def)
  have absentPole: "poleId \<notin> set (map pole_id (poles s)) \<longrightarrow>
      poles (perform e (IsolatePole poleId) s) = poles s \<and>
      poles (perform e (RestorePole poleId) s) = poles s \<and>
      poles (perform e (FixIssue poleId) s) = poles s \<and>
      poles (perform e (AddIssue poleId d) s) = poles s"
    by (simp add: handleAddIssue_def handleFixIssue_def handleIsolatePole_def
        handleRestorePole_def Let_def updatePoles_absent)
  have absentAlert: "alertId \<notin> set (map alert_id (alerts s)) \<longrightarrow>
      alerts (perform e (DeleteAlert alertId) s) = alerts s"
    by (auto simp: handleDeleteAlert_def filter_id_conv)
  show ?thesis
    using toast absentPole absentAlert by blast
qed

text \<open>Fixing the unknown pole P009 and deleting the unknown alert A999.\<close>

theorem operations_always_succeed_witness:
  "toasts (perform env0 (FixIssue ''P009'') initialState)
     = [(Success, ''Issue fixed for pole P009'')] \<and>
   poles (perform env0 (FixIssue ''P009'') initialState) = mockPoles \<and>
   alerts (perform env0 (DeleteAlert ''A999'') initialState) = mockAlerts"
proof -
  have a: "''P009'' \<notin> set (map pole_id (poles initialState))"
    "''A999'' \<notin> set (map alert_id (alerts initialState))"
    "\<forall>alertId. FixIssue ''P009'' \<noteq> ToggleAlertExpand alertId"
    by (simp_all add: initialState_def mockPoles_def mockAlerts_def)
  have b: "poles initialState = mockPoles" "alerts initialState = mockAlerts"
    "toasts initialState = []"
    by (simp_all add: initialState_def)
  have c: "toasts (perform env0 (FixIssue ''P009'') initialState)
     = [(Success, ''Issue fixed for pole P009'')]"
    by (simp add: handleFixIssue_def b)
  show ?thesis
    using operations_always_succeed [of env0 "FixIssue ''P009''" initialState "''P009''" _ "''A999''"]
      a b c
    by simp
qed

subsection \<open>Alerts hidden behind the healthy message\<close>

text \<open>
  Claim C10. A reachable state has a non-empty alert log and no faulty pole: fixing P001 in
  the state after mounting removes the alert of P001 and leaves alert A002 of the isolated
  pole P003. In every state with a non-empty alert log and no faulty pole, the alerts
  section shows the message \<^verbatim>\<open>All lines are healthy\<close> in place of the alert cards,
  while its badge shows the number of alerts, which is not zero.
\<close>

theorem healthy_message_hides_remaining_alerts:
  "(reachable (handleFixIssue e ''P001'' initialState) \<and>
    alerts (handleFixIssue e ''P001'' initialState) = [mockAlerts ! 1] \<and>
    alert_id (mockAlerts ! 1) = ''A002'' \<and>
    alert_poleId (mockAlerts ! 1) = ''P003'' \<and>
    pole_id (poles (handleFixIssue e ''P001'' initialState) ! 2) = ''P003'' \<and>
    pole_status (poles (handleFixIssue e ''P001'' initialState) ! 2) = Isolated \<and>
    (\<forall>p \<in> set (poles (handleFixIssue e ''P001'' initialState)). pole_status p \<noteq> Faulty)) \<and>
   (alerts s \<noteq> [] \<and> (\<forall>p \<in> set (poles s). pole_status p \<noteq> Faulty) \<longrightarrow>
      \<not> hasActiveFaults s \<and>
      body (renderAlerts s) = AllLinesHealthy \<and>
      badge (renderAlerts s) = length (alerts s) \<and>
      0 < badge (renderAlerts s))"
proof -
  have r: "reachable (handleFixIssue e ''P001'' initialState)"
    using reachable_step [OF reachable_init, of e "FixIssue ''P001''"] by simp
  have st: "alerts (handleFixIssue e ''P001'' initialState) = [mockAlerts ! 1]"
    "alert_id (mockAlerts ! 1) = ''A002''"
    "alert_poleId (mockAlerts ! 1) = ''P003''"
    "pole_id (poles (handleFixIssue e ''P001'' initialState) ! 2) = ''P003''"
    "pole_status (poles (handleFixIssue e ''P001'' initialState) ! 2) = Isolated"
    "\<forall>p \<in> set (poles (handleFixIssue e ''P001'' initialState)). pole_status p \<noteq> Faulty"
    by (simp_all add: handleFixIssue_def initialState_def mockPoles_def mockAlerts_def)
  have view: "alerts s \<noteq> [] \<and> (\<forall>p \<in> set (poles s). pole_status p \<noteq> Faulty) \<longrightarrow>
      \<not> hasActiveFaults s \<and>
      body (renderAlerts s) = AllLinesHealthy \<and>
      badge (renderAlerts s) = length (alerts s) \<and>
      0 < badge (renderAlerts s)"
    by (auto simp: renderAlerts_def hasActiveFaults_def faultyPoles_def filter_empty_conv)
  show ?thesis
    using r st view by blast
qed

text \<open>After fixing P001 the badge shows 1 and the list shows the healthy message.\<close>

theorem healthy_message_hides_remaining_alerts_witness:
  "reachable (handleFixIssue env0 ''P001'' initialState) \<and>
   body (renderAlerts (handleFixIssue env0 ''P001'' initialState)) = AllLinesHealthy \<and>
   badge (renderAlerts (handleFixIssue env0 ''P001'' initialState)) = 1"
proof -
  have "alerts (handleFixIssue env0 ''P001'' initialState) \<noteq> []"
    "length (alerts (handleFixIssue env0 ''P001'' initialState)) = 1"
    using healthy_message_hides_remaining_alerts
      [of env0 "handleFixIssue env0 ''P001'' initialState"] by simp_all
  then show ?thesis
    using healthy_message_hides_remaining_alerts
      [of env0 "handleFixIssue env0 ''P001'' initialState"] by simp
qed

end
